theory Spec2Isabelle
  imports Complex_Main "HOL-Library.Multiset"
begin

section \<open>Strings\<close>

text \<open>
  A Python \<open>str\<close> is modelled as a \<open>string\<close>, one \<open>char\<close> per code point. The character
  classes below are those of Python on the ASCII range: \<open>str.isspace\<close> (used by
  \<open>strip\<close>, \<open>split\<close> and the regular expression class \<open>\s\<close>), the digits of \<open>\d\<close>, the
  letters of \<open>[A-Z]\<close> and \<open>[a-z]\<close>, and the word characters of \<open>\w\<close>. Text beyond ASCII
  is outside the model.
\<close>

definition is_space :: "char \<Rightarrow> bool" where
  "is_space c = (let n = (of_char c :: nat) in n = 32 \<or> (9 \<le> n \<and> n \<le> 13) \<or> (28 \<le> n \<and> n \<le> 31))"

definition is_digit :: "char \<Rightarrow> bool" where
  "is_digit c = (let n = (of_char c :: nat) in 48 \<le> n \<and> n \<le> 57)"

definition is_upper :: "char \<Rightarrow> bool" where
  "is_upper c = (let n = (of_char c :: nat) in 65 \<le> n \<and> n \<le> 90)"

definition is_lower :: "char \<Rightarrow> bool" where
  "is_lower c = (let n = (of_char c :: nat) in 97 \<le> n \<and> n \<le> 122)"

definition is_alpha :: "char \<Rightarrow> bool" where
  "is_alpha c = (is_upper c \<or> is_lower c)"

definition is_word :: "char \<Rightarrow> bool" where
  "is_word c = (is_alpha c \<or> is_digit c \<or> c = CHR ''_'')"

definition lower_char :: "char \<Rightarrow> char" where
  "lower_char c = (if is_upper c then char_of ((of_char c :: nat) + 32) else c)"

definition lower :: "string \<Rightarrow> string" where
  "lower s = map lower_char s"

definition strip :: "string \<Rightarrow> string" where
  "strip s = rev (dropWhile is_space (rev (dropWhile is_space s)))"

text \<open>\<open>starts_with s p\<close> is \<open>s.startswith(p)\<close>; \<open>contains s p\<close> is Python's \<open>p in s\<close>.\<close>

fun starts_with :: "string \<Rightarrow> string \<Rightarrow> bool" where
  "starts_with s [] = True"
| "starts_with [] (p # ps) = False"
| "starts_with (c # cs) (p # ps) = (c = p \<and> starts_with cs ps)"

fun contains :: "string \<Rightarrow> string \<Rightarrow> bool" where
  "contains [] p = (p = [])"
| "contains (c # cs) p = (starts_with (c # cs) p \<or> contains cs p)"

text \<open>
  Maximal runs of the characters satisfying \<open>p\<close>, left to right. With \<open>p = is_word\<close> this is
  \<open>re.findall(r'\b\w+\b', s)\<close>; with the non-space characters it is \<open>s.split()\<close>.
\<close>

fun runs :: "(char \<Rightarrow> bool) \<Rightarrow> string \<Rightarrow> string \<Rightarrow> string list" where
  "runs p acc [] = (if acc = [] then [] else [acc])"
| "runs p acc (c # cs) =
     (if p c then runs p (acc @ [c]) cs
      else (if acc = [] then [] else [acc]) @ runs p [] cs)"

definition findall_words :: "string \<Rightarrow> string list" where
  "findall_words s = runs is_word [] s"

definition split_ws :: "string \<Rightarrow> string list" where
  "split_ws s = runs (\<lambda>c. \<not> is_space c) [] s"

text \<open>\<open>join sep xs\<close> is \<open>sep.join(xs)\<close>.\<close>

fun join :: "string \<Rightarrow> string list \<Rightarrow> string" where
  "join sep [] = []"
| "join sep [x] = x"
| "join sep (x # y # ys) = x @ sep @ join sep (y # ys)"

text \<open>Decimal rendering of an integer, as an f-string does.\<close>

fun str_nat :: "nat \<Rightarrow> string" where
  "str_nat n = (if n < 10 then [char_of (48 + n)] else str_nat (n div 10) @ [char_of (48 + n mod 10)])"

definition str_int :: "int \<Rightarrow> string" where
  "str_int i = (if i < 0 then CHR ''-'' # str_nat (nat (- i)) else str_nat (nat i))"

section \<open>Regular expressions\<close>

text \<open>
  The patterns of the source are matched by Brzozowski derivatives. An \<open>Atom\<close> is a
  character class; \<open>Rep lo hi p\<close> is the bounded repetition \<open>[p]{lo,hi}\<close> of a class.
  \<open>re.match\<close> succeeds when some prefix of the text is in the language of the pattern;
  a pattern that ends in \<open>$\<close> must reach the end of the text, or the newline that ends it.
\<close>

datatype rx =
    Zero
  | One
  | Atom "char \<Rightarrow> bool"
  | Alt rx rx
  | Seq rx rx
  | Star rx
  | Rep nat nat "char \<Rightarrow> bool"

fun nullable :: "rx \<Rightarrow> bool" where
  "nullable Zero = False"
| "nullable One = True"
| "nullable (Atom p) = False"
| "nullable (Alt r s) = (nullable r \<or> nullable s)"
| "nullable (Seq r s) = (nullable r \<and> nullable s)"
| "nullable (Star r) = True"
| "nullable (Rep lo hi p) = (lo = 0)"

text \<open>The derivative is built with constructors that drop the empty language, so that
  the expression stays small along a text.\<close>

fun alt :: "rx \<Rightarrow> rx \<Rightarrow> rx" where
  "alt Zero s = s"
| "alt r Zero = r"
| "alt r s = Alt r s"

fun seq :: "rx \<Rightarrow> rx \<Rightarrow> rx" where
  "seq Zero s = Zero"
| "seq r Zero = Zero"
| "seq One s = s"
| "seq r s = Seq r s"

fun deriv :: "char \<Rightarrow> rx \<Rightarrow> rx" where
  "deriv c Zero = Zero"
| "deriv c One = Zero"
| "deriv c (Atom p) = (if p c then One else Zero)"
| "deriv c (Alt r s) = alt (deriv c r) (deriv c s)"
| "deriv c (Seq r s) =
     (if nullable r then alt (seq (deriv c r) s) (deriv c s) else seq (deriv c r) s)"
| "deriv c (Star r) = seq (deriv c r) (Star r)"
| "deriv c (Rep lo hi p) = (if 0 < hi \<and> p c then Rep (lo - 1) (hi - 1) p else Zero)"

fun match_prefix :: "rx \<Rightarrow> string \<Rightarrow> bool" where
  "match_prefix r [] = nullable r"
| "match_prefix r (c # cs) = (nullable r \<or> match_prefix (deriv c r) cs)"

fun match_dollar :: "rx \<Rightarrow> string \<Rightarrow> bool" where
  "match_dollar r [] = nullable r"
| "match_dollar r (c # cs) =
     ((nullable r \<and> c = char_of (10::nat) \<and> cs = []) \<or> match_dollar (deriv c r) cs)"

text \<open>A pattern is its expression and whether it ends in \<open>$\<close>.\<close>

type_synonym pattern = "rx \<times> bool"

fun re_match :: "pattern \<Rightarrow> string \<Rightarrow> bool" where
  "re_match (r, dollar) s = (if dollar then match_dollar r s else match_prefix r s)"

definition Plus :: "rx \<Rightarrow> rx" where
  "Plus r = Seq r (Star r)"

definition Opt :: "rx \<Rightarrow> rx" where
  "Opt r = Alt r One"

text \<open>Under \<open>re.IGNORECASE\<close> a literal character matches in either case, and \<open>[A-Z]\<close> and
  \<open>[a-z]\<close> both match every letter.\<close>

definition lit_char :: "char \<Rightarrow> rx" where
  "lit_char c = Atom (\<lambda>x. lower_char x = lower_char c)"

fun lit :: "string \<Rightarrow> rx" where
  "lit [] = One"
| "lit (c # cs) = Seq (lit_char c) (lit cs)"

fun alts :: "rx list \<Rightarrow> rx" where
  "alts [] = Zero"
| "alts (r # rs) = Alt r (alts rs)"

section \<open>Section headers\<close>

text \<open>
  The five \<open>header_patterns\<close> of \<open>is_section_header\<close>, in the source's order, each read
  with \<open>re.IGNORECASE\<close>:
  \<^enum> \<^verbatim>\<open>^\d+\.?\s+[A-Z]\<close> (numbered sections),
  \<^enum> \<^verbatim>\<open>^[A-Z\s]{5,50}$\<close> (all caps headers),
  \<^enum> \<^verbatim>\<open>^(Abstract|Introduction|Methodology|Results|Discussion|Conclusion|References)\<close>,
  \<^enum> \<^verbatim>\<open>^(Chapter|Section|Part)\s+\d+\<close>,
  \<^enum> \<^verbatim>\<open>^[A-Z][a-z]+(?:\s+[A-Z][a-z]+)*\s*$\<close> (title case).
\<close>

definition numbered_pattern :: pattern where
  "numbered_pattern =
     (Seq (Plus (Atom is_digit))
        (Seq (Opt (Atom (\<lambda>c. c = CHR ''.''))) (Seq (Plus (Atom is_space)) (Atom is_alpha))),
      False)"

definition caps_pattern :: pattern where
  "caps_pattern = (Rep 5 50 (\<lambda>c. is_alpha c \<or> is_space c), True)"

definition keyword_pattern :: pattern where
  "keyword_pattern =
     (alts (map lit [''Abstract'', ''Introduction'', ''Methodology'', ''Results'',
                     ''Discussion'', ''Conclusion'', ''References'']),
      False)"

definition chapter_pattern :: pattern where
  "chapter_pattern =
     (Seq (alts (map lit [''Chapter'', ''Section'', ''Part'']))
        (Seq (Plus (Atom is_space)) (Plus (Atom is_digit))),
      False)"

definition title_pattern :: pattern where
  "title_pattern =
     (Seq (Atom is_alpha)
        (Seq (Plus (Atom is_alpha))
           (Seq (Star (Seq (Plus (Atom is_space)) (Seq (Atom is_alpha) (Plus (Atom is_alpha)))))
              (Star (Atom is_space)))),
      True)"

definition header_patterns :: "pattern list" where
  "header_patterns =
     [numbered_pattern, caps_pattern, keyword_pattern, chapter_pattern, title_pattern]"

definition is_section_header :: "string \<Rightarrow> bool" where
  "is_section_header text0 =
     (let t = strip text0 in
      if length t < 200 \<and> length t > 5 then list_ex (\<lambda>pattern. re_match pattern t) header_patterns
      else False)"

section \<open>Relevance score\<close>

text \<open>The keyword tables of \<open>PersonaDocumentAnalyzer.__init__\<close>; a dictionary is an
  association list in the source's insertion order.\<close>

definition persona_keywords :: "(string \<times> string list) list" where
  "persona_keywords =
     [(''researcher'', [''methodology'', ''results'', ''analysis'', ''experiment'', ''data'',
                        ''study'', ''research'', ''findings'', ''hypothesis'', ''literature'']),
      (''student'', [''definition'', ''example'', ''concept'', ''theory'', ''principle'',
                     ''basics'', ''fundamentals'', ''explanation'', ''overview'', ''summary'']),
      (''analyst'', [''trend'', ''performance'', ''metric'', ''revenue'', ''growth'', ''market'',
                     ''financial'', ''investment'', ''risk'', ''return'']),
      (''manager'', [''strategy'', ''implementation'', ''team'', ''project'', ''planning'',
                     ''execution'', ''leadership'', ''management'', ''objectives'', ''goals'']),
      (''developer'', [''code'', ''implementation'', ''algorithm'', ''technical'', ''system'',
                       ''architecture'', ''framework'', ''api'', ''database'', ''optimization'']),
      (''consultant'', [''recommendation'', ''solution'', ''best practice'', ''assessment'',
                        ''evaluation'', ''improvement'', ''process'', ''efficiency'',
                        ''optimization''])]"

definition academic_keywords :: "string list" where
  "academic_keywords =
     [''abstract'', ''introduction'', ''methodology'', ''results'', ''discussion'',
      ''conclusion'', ''references'', ''literature review'']"

definition business_keywords :: "string list" where
  "business_keywords =
     [''executive summary'', ''financial'', ''revenue'', ''profit'', ''market'', ''strategy'',
      ''competitive'', ''analysis'']"

definition persona_mappings :: "(string \<times> string list) list" where
  "persona_mappings =
     [(''researcher'', [''researcher'', ''scientist'', ''phd'', ''academic'']),
      (''student'', [''student'', ''undergraduate'', ''graduate'', ''learner'']),
      (''analyst'', [''analyst'', ''investment'', ''financial'', ''business analyst'']),
      (''manager'', [''manager'', ''director'', ''executive'', ''leader'']),
      (''developer'', [''developer'', ''engineer'', ''programmer'', ''technical'']),
      (''consultant'', [''consultant'', ''advisor'', ''specialist''])]"

definition identify_persona_type :: "string \<Rightarrow> string" where
  "identify_persona_type pers =
     (case find (\<lambda>(persona_type, keywords). list_ex (\<lambda>keyword. contains pers keyword) keywords)
             persona_mappings of
        Some (persona_type, keywords) \<Rightarrow> persona_type
      | None \<Rightarrow> ''general'')"

text \<open>
  \<open>calculate_relevance_score\<close>. The score is a Python float; the model computes it in exact
  rational arithmetic. \<open>matches ks s\<close> is \<open>sum(1 for k in ks if k in s)\<close>.
\<close>

definition matches :: "string list \<Rightarrow> string \<Rightarrow> nat" where
  "matches ks s = length (filter (\<lambda>k. contains s k) ks)"

definition calculate_relevance_score :: "string \<Rightarrow> string \<Rightarrow> string \<Rightarrow> rat" where
  "calculate_relevance_score text0 pers job_description =
     (let text_lower = lower text0;
          persona_lower = lower pers;
          job_lower = lower job_description;
          job_words = set (findall_words job_lower);
          text_words = set (findall_words text_lower);
          common_words = job_words \<inter> text_words;
          score1 = (if job_words \<noteq> {}
                    then of_nat (card common_words) / of_nat (card job_words) * 40 else 0);
          persona_type = identify_persona_type persona_lower;
          score2 = score1 +
            (case map_of persona_keywords persona_type of
               Some persona_words \<Rightarrow>
                 (if persona_words \<noteq> []
                  then of_nat (matches persona_words text_lower) / of_nat (length persona_words) * 30
                  else 0)
             | None \<Rightarrow> 0);
          score3 = score2 +
            (if list_ex (\<lambda>keyword. contains job_lower keyword)
                  [''research'', ''study'', ''academic'', ''paper'']
             then of_nat (matches academic_keywords text_lower) * 5 else 0);
          score4 = score3 +
            (if list_ex (\<lambda>keyword. contains job_lower keyword)
                  [''business'', ''financial'', ''market'', ''revenue'']
             then of_nat (matches business_keywords text_lower) * 5 else 0);
          word_count = length (split_ws text0);
          score5 = score4 + (if word_count > 100 then min (of_nat word_count / 100) 10 else 0)
      in min score5 100)"

section \<open>Data model\<close>

text \<open>The dictionaries of the source as records: a text block (an item of
  \<open>document_data\<close>), a section, a section with its score, a sub-section passage, an entry of
  \<open>extracted_sections\<close>, and the result record with its metadata.\<close>

record text_block =
  document :: string
  page :: int
  section_id :: string
  block_text :: string
  word_count :: int

record doc_section =
  sec_document :: string
  sec_page :: int
  section_title :: string
  content :: "text_block list"
  importance_rank :: int

record scored_section = doc_section +
  relevance_score :: rat

record passage =
  sub_document :: string
  page_number :: int
  refined_text :: string
  sub_relevance_score :: rat

record section_entry =
  out_document :: string
  out_page_number :: int
  out_section_title :: string
  out_importance_rank :: int

record metadata =
  input_documents :: "string list"
  persona :: string
  job_to_be_done :: string
  processing_timestamp :: string
  error :: "string option"

record result =
  metadata :: metadata
  extracted_sections :: "section_entry list"
  sub_section_analysis :: "passage list"

section \<open>Section segmentation\<close>

definition header_section :: "text_block \<Rightarrow> doc_section" where
  "header_section item =
     \<lparr> sec_document = document item, sec_page = page item,
       section_title = (if length (block_text item) > 100
                        then take 100 (block_text item) @ ''...'' else block_text item),
       content = [item], importance_rank = 0 \<rparr>"

definition orphan_section :: "text_block \<Rightarrow> doc_section" where
  "orphan_section item =
     \<lparr> sec_document = document item, sec_page = page item,
       section_title = ''Section starting at page '' @ str_int (page item),
       content = [item], importance_rank = 0 \<rparr>"

text \<open>The loop of \<open>identify_sections\<close>: \<open>sections\<close> are the sections emitted so far and
  \<open>current_section\<close> the open one, if any.\<close>

fun identify_loop :: "doc_section list \<Rightarrow> doc_section option \<Rightarrow> text_block list \<Rightarrow> doc_section list" where
  "identify_loop sections current_section [] =
     (case current_section of Some cur \<Rightarrow> sections @ [cur] | None \<Rightarrow> sections)"
| "identify_loop sections current_section (item # rest) =
     (if is_section_header (block_text item)
      then identify_loop
             (case current_section of Some cur \<Rightarrow> sections @ [cur] | None \<Rightarrow> sections)
             (Some (header_section item)) rest
      else (case current_section of
              Some cur \<Rightarrow> identify_loop sections (Some (cur\<lparr>content := content cur @ [item]\<rparr>)) rest
            | None \<Rightarrow> identify_loop sections (Some (orphan_section item)) rest))"

definition identify_sections :: "text_block list \<Rightarrow> doc_section list" where
  "identify_sections document_data = identify_loop [] None document_data"

section \<open>Section ranking\<close>

text \<open>\<open>xs.sort(key=f, reverse=True)\<close>: Python's sort is stable, also when reversed, so it is
  the stable ascending sort on the negated key.\<close>

definition sort_desc :: "('a \<Rightarrow> rat) \<Rightarrow> 'a list \<Rightarrow> 'a list" where
  "sort_desc f xs = sort_key (\<lambda>x. - f x) xs"

definition section_text :: "'a doc_section_scheme \<Rightarrow> string" where
  "section_text s = join '' '' (map block_text (content s))"

text \<open>Storing \<open>section['relevance_score']\<close> adds a key to the dictionary.\<close>

definition with_score :: "doc_section \<Rightarrow> rat \<Rightarrow> scored_section" where
  "with_score s r =
     \<lparr> sec_document = sec_document s, sec_page = sec_page s, section_title = section_title s,
       content = content s, importance_rank = importance_rank s, relevance_score = r \<rparr>"

text \<open>\<open>rank_sections\<close>. The sections of the list are distinct objects, as
  \<open>identify_sections\<close> builds them, so the updates in place are updates of the list's
  elements.\<close>

definition section_score :: "'a doc_section_scheme \<Rightarrow> string \<Rightarrow> string \<Rightarrow> rat" where
  "section_score s pers job_description =
     calculate_relevance_score (section_text s) pers job_description"

definition rank_sections :: "doc_section list \<Rightarrow> string \<Rightarrow> string \<Rightarrow> scored_section list" where
  "rank_sections sections pers job_description =
     (let scored = map (\<lambda>s. with_score s (section_score s pers job_description)) sections;
          sorted_sections = sort_desc relevance_score scored
      in map (\<lambda>(i, s). s\<lparr>importance_rank := int i + 1\<rparr>) (enumerate 0 sorted_sections))"

section \<open>Sub-section extraction\<close>

text \<open>\<^verbatim>\<open>re.split(r'[.!?]+', text)\<close>: the pieces between the maximal runs of sentence marks,
  the empty pieces at both ends included.\<close>

definition is_sentence_end :: "char \<Rightarrow> bool" where
  "is_sentence_end c = (c = CHR ''.'' \<or> c = CHR ''!'' \<or> c = CHR ''?'')"

fun re_split_loop :: "string \<Rightarrow> bool \<Rightarrow> string \<Rightarrow> string list" where
  "re_split_loop acc in_marks [] = [acc]"
| "re_split_loop acc in_marks (c # cs) =
     (if is_sentence_end c
      then (if in_marks then re_split_loop acc True cs else acc # re_split_loop [] True cs)
      else re_split_loop (acc @ [c]) False cs)"

definition re_split_sentences :: "string \<Rightarrow> string list" where
  "re_split_sentences s = re_split_loop [] False s"

text \<open>\<open>[sentences[i:i+4] for i in range(0, len(sentences), 4)]\<close>.\<close>

fun chunks4 :: "'a list \<Rightarrow> 'a list list" where
  "chunks4 (a # b # c # d # rest) = [a, b, c, d] # chunks4 rest"
| "chunks4 [] = []"
| "chunks4 xs = [xs]"

definition subsection_text :: "string list \<Rightarrow> string" where
  "subsection_text subsection_sentences =
     join ''. '' (filter (\<lambda>s. s \<noteq> []) (map strip subsection_sentences))"

text \<open>The inner loop of \<open>extract_subsections\<close> over the chunks of one item, and the list
  \<open>subsections\<close> as it is before the sort.\<close>

fun item_subsections :: "text_block \<Rightarrow> string \<Rightarrow> string \<Rightarrow> string list list \<Rightarrow> passage list" where
  "item_subsections item pers job_description [] = []"
| "item_subsections item pers job_description (subsection_sentences # rest) =
     (let t = subsection_text subsection_sentences in
      if length t > 50
      then \<lparr> sub_document = document item, page_number = page item, refined_text = t,
             sub_relevance_score = calculate_relevance_score t pers job_description \<rparr>
           # item_subsections item pers job_description rest
      else item_subsections item pers job_description rest)"

definition subsections_unsorted :: "'a doc_section_scheme \<Rightarrow> string \<Rightarrow> string \<Rightarrow> passage list" where
  "subsections_unsorted sec pers job_description =
     concat (map (\<lambda>item. item_subsections item pers job_description
                            (chunks4 (re_split_sentences (block_text item))))
               (content sec))"

definition extract_subsections :: "'a doc_section_scheme \<Rightarrow> string \<Rightarrow> string \<Rightarrow> passage list" where
  "extract_subsections sec pers job_description =
     take 10 (sort_desc sub_relevance_score (subsections_unsorted sec pers job_description))"

section \<open>Processing a collection\<close>

text \<open>
  An exception is a value \<open>Error msg\<close>, with \<open>msg\<close> what \<open>str(e)\<close> gives. The world that
  \<open>process_document_collection\<close> reads is passed in:
  \<^item> \<open>input_file\<close>: what opening and parsing the configuration gives, an exception or the
    parsed object; a key of the object that is absent is \<open>None\<close>, and the values present
    have the types of the input contract;
  \<^item> \<open>pdfs\<close>: for a document name, \<open>None\<close> when its path does not exist, otherwise what
    \<open>extract_document_text\<close> gives there, an exception or the text blocks;
  \<^item> \<open>now\<close>: the clock reading \<open>datetime.now().isoformat()\<close>.
\<close>

datatype error = Error string

record config =
  cfg_persona :: "string option"
  cfg_job_to_be_done :: "string option"
  cfg_documents :: "string list option"

text \<open>\<open>config[key]\<close>: a missing key raises \<open>KeyError(key)\<close>, whose text is the quoted key.\<close>

definition get_key :: "string \<Rightarrow> 'a option \<Rightarrow> error + 'a" where
  "get_key key v = (case v of None \<Rightarrow> Inl (Error ([CHR 0x27] @ key @ [CHR 0x27])) | Some x \<Rightarrow> Inr x)"

fun load_documents ::
  "(string \<Rightarrow> (error + text_block list) option) \<Rightarrow> text_block list \<Rightarrow> string list
     \<Rightarrow> error + text_block list" where
  "load_documents pdfs all_document_data [] = Inr all_document_data"
| "load_documents pdfs all_document_data (doc_name # rest) =
     (case pdfs doc_name of
        None \<Rightarrow> load_documents pdfs all_document_data rest
      | Some (Inl e) \<Rightarrow> Inl e
      | Some (Inr doc_data) \<Rightarrow> load_documents pdfs (all_document_data @ doc_data) rest)"

definition section_entry_of :: "scored_section \<Rightarrow> section_entry" where
  "section_entry_of s =
     \<lparr> out_document = sec_document s, out_page_number = sec_page s,
       out_section_title = section_title s, out_importance_rank = importance_rank s \<rparr>"

text \<open>The loop over \<open>top_sections\<close>, with the two lists it appends to.\<close>

fun collect_output ::
  "string \<Rightarrow> string \<Rightarrow> section_entry list \<Rightarrow> passage list \<Rightarrow> scored_section list
     \<Rightarrow> section_entry list \<times> passage list" where
  "collect_output pers job_description extracted subs [] = (extracted, subs)"
| "collect_output pers job_description extracted subs (s # rest) =
     collect_output pers job_description (extracted @ [section_entry_of s])
       (if importance_rank s \<le> 10
        then subs @ take 3 (extract_subsections s pers job_description) else subs)
       rest"

text \<open>The body of the \<open>try\<close> block, then the function with its handler.\<close>

definition process_body ::
  "error + config \<Rightarrow> (string \<Rightarrow> (error + text_block list) option) \<Rightarrow> string \<Rightarrow> error + result" where
  "process_body input_file pdfs now =
     (case input_file of Inl e \<Rightarrow> Inl e | Inr cfg \<Rightarrow>
      (case get_key ''persona'' (cfg_persona cfg) of Inl e \<Rightarrow> Inl e | Inr pers \<Rightarrow>
       (case get_key ''job_to_be_done'' (cfg_job_to_be_done cfg) of Inl e \<Rightarrow> Inl e
        | Inr job_description \<Rightarrow>
        (case get_key ''documents'' (cfg_documents cfg) of Inl e \<Rightarrow> Inl e | Inr documents \<Rightarrow>
         (case load_documents pdfs [] documents of Inl e \<Rightarrow> Inl e | Inr all_document_data \<Rightarrow>
            (let all_sections = identify_sections all_document_data;
                 ranked_sections = rank_sections all_sections pers job_description;
                 top_sections = take 20 ranked_sections;
                 (extracted, subs) = collect_output pers job_description [] [] top_sections
             in Inr \<lparr> metadata = \<lparr> input_documents = documents, persona = pers,
                                     job_to_be_done = job_description,
                                     processing_timestamp = now, error = None \<rparr>,
                       extracted_sections = extracted, sub_section_analysis = subs \<rparr>))))))"

definition process_document_collection ::
  "error + config \<Rightarrow> (string \<Rightarrow> (error + text_block list) option) \<Rightarrow> string \<Rightarrow> result" where
  "process_document_collection input_file pdfs now =
     (case process_body input_file pdfs now of
        Inr out \<Rightarrow> out
      | Inl (Error msg) \<Rightarrow>
          \<lparr> metadata = \<lparr> input_documents = [], persona = [], job_to_be_done = [],
                          processing_timestamp = now, error = Some msg \<rparr>,
            extracted_sections = [], sub_section_analysis = [] \<rparr>)"

section \<open>Example inputs\<close>

definition example_block :: "string \<Rightarrow> text_block" where
  "example_block t =
     \<lparr> document = ''report.pdf'', page = 1, section_id = ''p1_0'', block_text = t,
       word_count = int (length (split_ws t)) \<rparr>"

definition example_section :: "string \<Rightarrow> string \<Rightarrow> doc_section" where
  "example_section title t =
     \<lparr> sec_document = ''report.pdf'', sec_page = 1, section_title = title,
       content = [example_block t], importance_rank = 0 \<rparr>"

definition example_sections :: "doc_section list" where
  "example_sections =
     [example_section ''A'' ''c, d'', example_section ''B'' ''e, f'', example_section ''C'' ''data'']"

definition short_chunk_section :: doc_section where
  "short_chunk_section = example_section ''T'' (replicate 50 CHR ''a'' @ ''.'')"

definition long_chunk_section :: doc_section where
  "long_chunk_section = example_section ''T'' (replicate 51 CHR ''a'' @ ''.'')"

definition example_config :: config where
  "example_config =
     \<lparr> cfg_persona = Some ''reader'', cfg_job_to_be_done = Some ''data'',
       cfg_documents = Some [''a.pdf'', ''b.pdf''] \<rparr>"

definition example_pdfs :: "string \<Rightarrow> (error + text_block list) option" where
  "example_pdfs doc_name =
     (if doc_name = ''a.pdf''
      then Some (Inr (map example_block [''1. Aims'', replicate 51 CHR ''a'' @ ''. data'']))
      else None)"

definition example_config_no_job :: config where
  "example_config_no_job =
     \<lparr> cfg_persona = Some ''phd'', cfg_job_to_be_done = None,
       cfg_documents = Some [''a.pdf'', ''b.pdf''] \<rparr>"


definition padded_header :: string where
  "padded_header = ''Introduction'' @ replicate 200 CHR '' ''"

section \<open>Header length\<close>

text \<open>The heuristic on some texts: a numbered heading, a keyword prefix, the chapter
  form and title case are headers; prose with punctuation and a text of four letters are
  not.\<close>

lemma is_section_header_examples:
  "is_section_header ''2 Related work''"
  "is_section_header ''resultsXY-9''"
  "is_section_header ''Part  12: x''"
  "is_section_header ''Hello World''"
  "\<not> is_section_header ''See Fig. 2''"
  "\<not> is_section_header ''12..  x''"
  "\<not> is_section_header ''ABCD''"
  by code_simp+

lemma length_strip_le: "length (strip s) \<le> length s"
proof -
  have "length (dropWhile is_space (rev (dropWhile is_space s)))
          \<le> length (rev (dropWhile is_space s))"
    by (rule length_dropWhile_le)
  also have "\<dots> \<le> length s"
    by (simp add: length_dropWhile_le)
  finally show ?thesis
    by (simp add: strip_def)
qed

text \<open>
  C8, as stated, fails: \<open>is_section_header\<close> strips the text before it measures it, so
  a header followed by 200 blanks, 212 characters long, is a header.
\<close>

theorem is_section_header_length_counterexample:
  "is_section_header (''Introduction'' @ replicate 200 CHR '' '')
   \<and> \<not> length (''Introduction'' @ replicate 200 CHR '' '') < 200"
  by code_simp

text \<open>
  C8, amended: \<open>is_section_header\<close> returns true only if the text, once stripped of
  leading and trailing whitespace, is longer than 5 and shorter than 200 characters; the
  text itself is then longer than 5 characters.
\<close>

theorem is_section_header_stripped_length:
  assumes "is_section_header t"
  shows "5 < length (strip t) \<and> length (strip t) < 200 \<and> 5 < length t"
proof -
  have "5 < length (strip t) \<and> length (strip t) < 200"
    using assms by (simp add: is_section_header_def Let_def split: if_splits)
  moreover have "length (strip t) \<le> length t"
    by (rule length_strip_le)
  ultimately show ?thesis
    by linarith
qed

theorem is_section_header_stripped_length_witness:
  "is_section_header padded_header \<and> length (strip padded_header) = 12
   \<and> length padded_header = 212"
proof -
  have h: "is_section_header padded_header"
    by code_simp
  have "length (strip padded_header) = 12" and "length padded_header = 212"
    by code_simp+
  with h is_section_header_stripped_length [OF h] show ?thesis
    by simp
qed

section \<open>Score bounds\<close>

lemma ratio_nonneg: "0 \<le> c \<Longrightarrow> 0 \<le> (of_nat a :: rat) / of_nat b * c"
  by simp

text \<open>
  C1: for every text, persona and job description, the empty strings included,
  \<open>calculate_relevance_score\<close> returns a value in the closed interval from 0 to 100.
\<close>

theorem calculate_relevance_score_bounds:
  "0 \<le> calculate_relevance_score t p j \<and> calculate_relevance_score t p j \<le> 100"
proof
  show "calculate_relevance_score t p j \<le> 100"
    unfolding calculate_relevance_score_def Let_def by (rule min.cobounded2)
  show "0 \<le> calculate_relevance_score t p j"
    unfolding calculate_relevance_score_def Let_def
  proof (intro min.boundedI add_nonneg_nonneg)
    show "0 \<le> (100::rat)"
      by simp
  next
    show "0 \<le> (if set (findall_words (lower j)) \<noteq> {}
          then rat_of_nat (card (set (findall_words (lower j)) \<inter> set (findall_words (lower t)))) /
               rat_of_nat (card (set (findall_words (lower j)))) * 40
          else 0)"
      by (simp only: ratio_nonneg split: if_split) simp
  next
    show "0 \<le> (case map_of persona_keywords (identify_persona_type (lower p)) of
          None \<Rightarrow> 0
        | Some persona_words \<Rightarrow>
            if persona_words \<noteq> []
            then rat_of_nat (matches persona_words (lower t)) / rat_of_nat (length persona_words) * 30
            else 0)"
      by (cases "map_of persona_keywords (identify_persona_type (lower p))") simp_all
  next
    show "0 \<le> (if list_ex (\<lambda>keyword. contains (lower j) keyword)
                     [''research'', ''study'', ''academic'', ''paper'']
          then rat_of_nat (matches academic_keywords (lower t)) * 5 else 0)"
      by (simp only: split: if_split) simp
  next
    show "0 \<le> (if list_ex (\<lambda>keyword. contains (lower j) keyword)
                     [''business'', ''financial'', ''market'', ''revenue'']
          then rat_of_nat (matches business_keywords (lower t)) * 5 else 0)"
      by (simp only: split: if_split) simp
  next
    show "0 \<le> (if 100 < length (split_ws t)
          then min (rat_of_nat (length (split_ws t)) / 100) 10 else 0)"
      by (simp only: split: if_split) simp
  qed
qed

section \<open>Sections partition the blocks\<close>

lemma identify_loop_concat:
  "concat (map content (identify_loop secs cur bs)) =
     concat (map content secs) @ (case cur of None \<Rightarrow> [] | Some c \<Rightarrow> content c) @ bs"
  by (induction bs arbitrary: secs cur)
     (auto simp: header_section_def orphan_section_def split: option.splits)

lemma identify_loop_nonempty:
  "\<forall>s \<in> set secs. content s \<noteq> [] \<Longrightarrow> \<forall>c. cur = Some c \<longrightarrow> content c \<noteq> [] \<Longrightarrow>
     \<forall>s \<in> set (identify_loop secs cur bs). content s \<noteq> []"
proof (induction bs arbitrary: secs cur)
  case Nil
  then show ?case
    by (auto split: option.splits)
next
  case (Cons item rest)
  show ?case
  proof (cases "is_section_header (block_text item)")
    case True
    let ?secs' = "case cur of Some c \<Rightarrow> secs @ [c] | None \<Rightarrow> secs"
    have 1: "\<forall>s \<in> set ?secs'. content s \<noteq> []"
      using Cons.prems by (auto split: option.splits)
    have 2: "\<forall>c. Some (header_section item) = Some c \<longrightarrow> content c \<noteq> []"
      by (simp add: header_section_def)
    show ?thesis
      using Cons.IH [OF 1 2] True by simp
  next
    case False
    show ?thesis
    proof (cases cur)
      case None
      have 2: "\<forall>c. Some (orphan_section item) = Some c \<longrightarrow> content c \<noteq> []"
        by (simp add: orphan_section_def)
      show ?thesis
        using Cons.IH [OF Cons.prems(1) 2] False None by simp
    next
      case (Some c)
      have 2: "\<forall>d. Some (c\<lparr>content := content c @ [item]\<rparr>) = Some d \<longrightarrow> content d \<noteq> []"
        by auto
      show ?thesis
        using Cons.IH [OF Cons.prems(1) 2] False Some by simp
    qed
  qed
qed

text \<open>
  C2: for every sequence of text blocks, the contents of the sections that
  \<open>identify_sections\<close> produces, concatenated in the order the sections are emitted, are
  the input sequence, and no section is empty. So the sections cut the input into
  consecutive non-empty runs: every block is in exactly one section, in input order.
\<close>

theorem identify_sections_partition:
  "concat (map content (identify_sections bs)) = bs
   \<and> (\<forall>s \<in> set (identify_sections bs). content s \<noteq> [])"
  using identify_loop_concat [of "[]" None bs] identify_loop_nonempty [of "[]" None bs]
  by (simp add: identify_sections_def)

theorem identify_sections_partition_witness:
  "map (\<lambda>s. map block_text (content s))
     (identify_sections (map example_block [''a, b'', ''1. Aims'', ''c, d'']))
     = [[''a, b''], [''1. Aims'', ''c, d'']]
   \<and> concat (map content
        (identify_sections (map example_block [''a, b'', ''1. Aims'', ''c, d''])))
     = map example_block [''a, b'', ''1. Aims'', ''c, d'']"
proof -
  let ?bs = "map example_block [''a, b'', ''1. Aims'', ''c, d'']"
  have "map (\<lambda>s. map block_text (content s)) (identify_sections ?bs)
          = [[''a, b''], [''1. Aims'', ''c, d'']]"
    by code_simp
  with identify_sections_partition [of ?bs] show ?thesis
    by simp
qed

section \<open>Ranking\<close>

lemma insort_key_map: "insort_key f (g a) (map g xs) = map g (insort_key (\<lambda>x. f (g x)) a xs)"
  by (induction xs) simp_all

lemma sort_key_map: "sort_key f (map g xs) = map g (sort_key (\<lambda>x. f (g x)) xs)"
  by (induction xs) (simp_all add: insort_key_map)

lemma sort_desc_map: "sort_desc f (map g xs) = map g (sort_desc (\<lambda>x. f (g x)) xs)"
  by (simp add: sort_desc_def sort_key_map)

lemma sort_desc_length: "length (sort_desc f xs) = length xs"
  by (simp add: sort_desc_def)

lemma sort_desc_mset: "mset (sort_desc f xs) = mset xs"
  by (simp add: sort_desc_def)

lemma sort_desc_sorted: "sorted_wrt (\<lambda>x y. f y \<le> f x) (sort_desc f xs)"
proof -
  have "sorted (map (\<lambda>x. - f x) (sort_desc f xs))"
    unfolding sort_desc_def by (rule sorted_sort_key)
  then show ?thesis
    by (simp add: sorted_wrt_map)
qed

lemma sorted_wrt_filter_nth:
  assumes "sorted_wrt R (filter P xs)" and "a < b" and "b < length xs"
    and "P (xs ! a)" and "P (xs ! b)"
  shows "R (xs ! a) (xs ! b)"
proof -
  have split: "xs = take b xs @ xs ! b # drop (Suc b) xs"
    using assms(3) by (rule id_take_nth_drop)
  have "xs ! a \<in> set (take b xs)"
    using assms(2,3) by (auto simp: in_set_conv_nth intro!: exI [of _ a])
  then have 1: "xs ! a \<in> set (filter P (take b xs))"
    using assms(4) by simp
  have "sorted_wrt R (filter P (take b xs) @ xs ! b # filter P (drop (Suc b) xs))"
    using assms(1,5) by (subst (asm) split) simp
  then show ?thesis
    using 1 by (auto simp: sorted_wrt_append)
qed

lemma sort_desc_stable_upt:
  fixes key :: "nat \<Rightarrow> rat"
  assumes "a < b" and "b < n"
    and "key (sort_desc key [0..<n] ! a) = key (sort_desc key [0..<n] ! b)"
  shows "sort_desc key [0..<n] ! a < sort_desc key [0..<n] ! b"
proof -
  let ?perm = "sort_desc key [0..<n]"
  let ?P = "\<lambda>y. - key y = - key (?perm ! a)"
  have "filter ?P ?perm = filter ?P [0..<n]"
    unfolding sort_desc_def by (rule sort_key_stable)
  moreover have "sorted_wrt (<) (filter ?P [0..<n])"
    by (rule sorted_wrt_filter) simp
  ultimately have "sorted_wrt (<) (filter ?P ?perm)"
    by simp
  moreover have "b < length ?perm"
    using assms(2) by (simp add: sort_desc_length)
  moreover have "?P (?perm ! a)" and "?P (?perm ! b)"
    using assms(3) by simp_all
  ultimately show ?thesis
    using assms(1) sorted_wrt_filter_nth [of "(<)" ?P ?perm a b] by blast
qed

text \<open>
  C3: for every list of \<open>N\<close> sections and every persona and job description, after
  \<open>rank_sections\<close> the importance ranks are \<open>1, \<dots>, N\<close> in list order (no ties, no gaps),
  the list is in descending order of relevance score, and the result is the input
  rearranged by a permutation \<open>perm\<close> of the input positions (position \<open>a\<close> of the result,
  of rank \<open>a + 1\<close>, holds input section \<open>perm ! a\<close> with its score) such that of two
  sections with the same score the one earlier in the input has the lower rank.
\<close>

theorem rank_sections_spec:
  "map importance_rank (rank_sections secs p j) = map int [1..<Suc (length secs)]
   \<and> sorted_wrt (\<ge>) (map relevance_score (rank_sections secs p j))
   \<and> (\<exists>perm. mset perm = mset [0..<length secs]
        \<and> rank_sections secs p j =
            map (\<lambda>(i, k). (with_score (secs ! k) (section_score (secs ! k) p j))
                             \<lparr>importance_rank := int i + 1\<rparr>)
              (enumerate 0 perm)
        \<and> (\<forall>a < length secs. \<forall>b < length secs.
              perm ! a < perm ! b
              \<and> section_score (secs ! (perm ! a)) p j = section_score (secs ! (perm ! b)) p j
              \<longrightarrow> a < b))"
proof -
  define n where "n = length secs"
  define key where "key k = section_score (secs ! k) p j" for k
  define g where "g k = with_score (secs ! k) (key k)" for k
  define perm where "perm = sort_desc key [0..<n]"
  have len: "length perm = n"
    by (simp add: perm_def sort_desc_length)
  have scored: "map (\<lambda>s. with_score s (section_score s p j)) secs = map g [0..<n]"
    by (rule nth_equalityI) (simp_all add: n_def g_def key_def)
  have rel: "relevance_score (g k) = key k" for k
    by (simp add: g_def with_score_def)
  have "sort_desc relevance_score (map g [0..<n]) = map g perm"
    by (simp add: sort_desc_map rel perm_def)
  then have out: "rank_sections secs p j =
      map (\<lambda>(i, s). s\<lparr>importance_rank := int i + 1\<rparr>) (enumerate 0 (map g perm))"
    by (simp add: rank_sections_def Let_def scored)
  have out_len: "length (rank_sections secs p j) = n"
    by (simp add: out len)
  have out_nth: "rank_sections secs p j ! i = (g (perm ! i))\<lparr>importance_rank := int i + 1\<rparr>"
    if "i < n" for i
    using that by (simp add: out len nth_enumerate_eq)
  have ranks: "map importance_rank (rank_sections secs p j) = map int [1..<Suc (length secs)]"
    by (rule nth_equalityI) (simp_all add: out_len out_nth n_def [symmetric] del: upt_Suc)
  have "sorted_wrt (\<lambda>x y. key y \<le> key x) perm"
    unfolding perm_def by (rule sort_desc_sorted)
  then have desc: "key (perm ! b) \<le> key (perm ! a)" if "a < b" and "b < n" for a b
    using that by (simp add: sorted_wrt_iff_nth_less len)
  have sorted: "sorted_wrt (\<ge>) (map relevance_score (rank_sections secs p j))"
    by (simp add: sorted_wrt_iff_nth_less out_len out_nth rel desc)
  have perm_mset: "mset perm = mset [0..<length secs]"
    by (simp add: perm_def sort_desc_mset n_def)
  have out_eq: "rank_sections secs p j =
      map (\<lambda>(i, k). (with_score (secs ! k) (section_score (secs ! k) p j))
                       \<lparr>importance_rank := int i + 1\<rparr>) (enumerate 0 perm)"
    by (rule nth_equalityI) (simp_all add: out_len out_nth len nth_enumerate_eq g_def key_def)
  have stable: "a < b"
    if "a < n" and "b < n" and lt: "perm ! a < perm ! b" and eq: "key (perm ! a) = key (perm ! b)"
    for a b
  proof (rule ccontr)
    assume "\<not> a < b"
    moreover have "a \<noteq> b"
      using lt by auto
    ultimately have "b < a"
      by simp
    then have "perm ! b < perm ! a"
      unfolding perm_def using that(1) eq [symmetric]
      by (intro sort_desc_stable_upt) (simp_all add: perm_def)
    with lt show False
      by simp
  qed
  have "\<forall>a < length secs. \<forall>b < length secs.
          perm ! a < perm ! b
          \<and> section_score (secs ! (perm ! a)) p j = section_score (secs ! (perm ! b)) p j
          \<longrightarrow> a < b"
    using stable by (simp add: n_def key_def)
  with ranks sorted perm_mset out_eq show ?thesis
    by blast
qed

theorem rank_sections_spec_witness:
  "map section_title (rank_sections example_sections ''phd'' ''data'') = [''C'', ''A'', ''B'']
   \<and> map relevance_score (rank_sections example_sections ''phd'' ''data'') = [43, 0, 0]
   \<and> map importance_rank (rank_sections example_sections ''phd'' ''data'') = [1, 2, 3]"
proof -
  have "map section_title (rank_sections example_sections ''phd'' ''data'') = [''C'', ''A'', ''B'']"
    and "map relevance_score (rank_sections example_sections ''phd'' ''data'') = [43, 0, 0]"
    and "length example_sections = 3"
    by code_simp+
  with rank_sections_spec [of example_sections "''phd''" "''data''"] show ?thesis
    by (simp add: upt_rec)
qed

section \<open>Sub-section passages\<close>

lemma item_subsections_texts:
  "map refined_text (item_subsections item p j chunks) =
     filter (\<lambda>t. 50 < length t) (map subsection_text chunks)"
  by (induction chunks) (simp_all add: Let_def)

lemma item_subsections_scores:
  "x \<in> set (item_subsections item p j chunks) \<Longrightarrow>
     sub_relevance_score x = calculate_relevance_score (refined_text x) p j"
  by (induction chunks) (auto simp: Let_def split: if_splits)

lemma subsections_unsorted_texts:
  "map refined_text (subsections_unsorted sec p j) =
     filter (\<lambda>t. 50 < length t)
       (concat (map (\<lambda>item. map subsection_text (chunks4 (re_split_sentences (block_text item))))
                  (content sec)))"
  by (simp add: subsections_unsorted_def map_concat filter_concat comp_def item_subsections_texts)

lemma subsections_unsorted_scores:
  "x \<in> set (subsections_unsorted sec p j) \<Longrightarrow>
     sub_relevance_score x = calculate_relevance_score (refined_text x) p j"
  by (auto simp: subsections_unsorted_def item_subsections_scores)

lemma subsections_unsorted_long:
  "x \<in> set (subsections_unsorted sec p j) \<Longrightarrow> 50 < length (refined_text x)"
proof -
  assume "x \<in> set (subsections_unsorted sec p j)"
  then have "refined_text x \<in> set (map refined_text (subsections_unsorted sec p j))"
    by simp
  then show ?thesis
    unfolding subsections_unsorted_texts by simp
qed

lemma extract_subsections_subset:
  "set (extract_subsections sec p j) \<subseteq> set (subsections_unsorted sec p j)"
proof -
  have "set (extract_subsections sec p j)
          \<subseteq> set (sort_desc sub_relevance_score (subsections_unsorted sec p j))"
    unfolding extract_subsections_def by (rule set_take_subset)
  then show ?thesis
    by (simp add: sort_desc_def)
qed

lemma extract_subsections_sorted:
  "sorted_wrt (\<lambda>x y. sub_relevance_score y \<le> sub_relevance_score x) (extract_subsections sec p j)"
  unfolding extract_subsections_def by (intro sorted_wrt_take sort_desc_sorted)

text \<open>
  C4, as stated, fails: a chunk is kept when its joined text is longer than 50 characters,
  so a chunk whose joined text has exactly 50 characters is not scored and is not a
  candidate. The block is 50 letters and a full stop.
\<close>

theorem extract_subsections_short_chunk_counterexample:
  "map block_text (content short_chunk_section) = [replicate 50 CHR ''a'' @ ''.'']
   \<and> chunks4 (re_split_sentences (replicate 50 CHR ''a'' @ ''.'')) = [[replicate 50 CHR ''a'', '''']]
   \<and> length (subsection_text [replicate 50 CHR ''a'', '''']) = 50
   \<and> subsections_unsorted short_chunk_section '''' '''' = []
   \<and> extract_subsections short_chunk_section '''' '''' = []"
  by code_simp

text \<open>
  C4, amended: for every section, persona and job description, \<open>extract_subsections\<close>
  returns at most 10 passages, each with a refined text longer than 50 characters. The
  candidates are, in order, the chunks whose joined text is longer than 50 characters (a
  chunk is discarded exactly when its joined text has 50 characters or fewer), each scored
  by \<open>calculate_relevance_score\<close> on its joined text; the result is the first 10 of the
  candidates in stable descending order of score.
\<close>

theorem extract_subsections_spec:
  "length (extract_subsections sec p j) \<le> 10
   \<and> (\<forall>x \<in> set (extract_subsections sec p j). 50 < length (refined_text x))
   \<and> map refined_text (subsections_unsorted sec p j) =
       filter (\<lambda>t. 50 < length t)
         (concat (map (\<lambda>item. map subsection_text (chunks4 (re_split_sentences (block_text item))))
                    (content sec)))
   \<and> (\<forall>x \<in> set (subsections_unsorted sec p j).
         sub_relevance_score x = calculate_relevance_score (refined_text x) p j)
   \<and> extract_subsections sec p j =
       take 10 (sort_desc sub_relevance_score (subsections_unsorted sec p j))
   \<and> mset (sort_desc sub_relevance_score (subsections_unsorted sec p j)) =
       mset (subsections_unsorted sec p j)"
proof -
  have "length (extract_subsections sec p j) \<le> 10"
    by (simp add: extract_subsections_def)
  moreover have "\<forall>x \<in> set (extract_subsections sec p j). 50 < length (refined_text x)"
    using extract_subsections_subset [of sec p j] subsections_unsorted_long [of _ sec p j]
    by blast
  ultimately show ?thesis
    using subsections_unsorted_texts [of sec p j] subsections_unsorted_scores [of _ sec p j]
    by (simp add: extract_subsections_def sort_desc_mset)
qed

theorem extract_subsections_spec_witness:
  "map refined_text (extract_subsections long_chunk_section '''' '''') = [replicate 51 CHR ''a'']
   \<and> map sub_relevance_score (extract_subsections long_chunk_section '''' '''') = [0]
   \<and> length (extract_subsections long_chunk_section '''' '''') \<le> 10"
proof -
  have "map refined_text (extract_subsections long_chunk_section '''' '''') = [replicate 51 CHR ''a'']"
    and "map sub_relevance_score (extract_subsections long_chunk_section '''' '''') = [0]"
    by code_simp+
  with extract_subsections_spec [of long_chunk_section "''''" "''''"] show ?thesis
    by simp
qed

section \<open>Processing a collection: results\<close>

lemma collect_output_eq:
  "collect_output p j es ss xs =
     (es @ map section_entry_of xs,
      ss @ concat (map (\<lambda>s. if importance_rank s \<le> 10 then take 3 (extract_subsections s p j) else [])
                    xs))"
  by (induction xs arbitrary: es ss) simp_all

lemma rank_sections_length: "length (rank_sections secs p j) = length secs"
  by (simp add: rank_sections_def sort_desc_length)

lemma rank_sections_nth_rank:
  assumes "i < length secs"
  shows "importance_rank (rank_sections secs p j ! i) = int i + 1"
  using assms by (simp add: rank_sections_def sort_desc_length nth_enumerate_eq)

lemma ranked_top10:
  assumes "\<And>i. i < length xs \<Longrightarrow> importance_rank (xs ! i) = int i + 1"
  shows "concat (map (\<lambda>s. if importance_rank s \<le> 10 then f s else []) (take 20 xs))
           = concat (map f (take 10 xs))"
proof -
  have split: "take 20 xs = take 10 xs @ take 10 (drop 10 xs)"
    using take_add [of 10 10 xs] by simp
  have low: "importance_rank s \<le> 10" if "s \<in> set (take 10 xs)" for s
  proof -
    from that obtain i where "i < length (take 10 xs)" and "take 10 xs ! i = s"
      by (auto simp: in_set_conv_nth)
    then show ?thesis
      using assms [of i] by auto
  qed
  have high: "\<not> importance_rank s \<le> 10" if "s \<in> set (take 10 (drop 10 xs))" for s
  proof -
    from that obtain i where "i < length (take 10 (drop 10 xs))"
      and "take 10 (drop 10 xs) ! i = s"
      by (auto simp: in_set_conv_nth)
    then show ?thesis
      using assms [of "10 + i"] by auto
  qed
  have 1: "map (\<lambda>s. if importance_rank s \<le> 10 then f s else []) (take 10 xs) = map f (take 10 xs)"
    using low by (intro map_cong) auto
  have 2: "concat (map (\<lambda>s. if importance_rank s \<le> 10 then f s else []) (take 10 (drop 10 xs))) = []"
    using high by auto
  show ?thesis
    by (simp only: split map_append concat_append 1 2 append_Nil2)
qed

lemma process_body_success:
  assumes "input_file = Inr cfg"
    and "cfg_persona cfg = Some pers" and "cfg_job_to_be_done cfg = Some job"
    and "cfg_documents cfg = Some docs"
    and "load_documents pdfs [] docs = Inr blocks"
  shows "process_body input_file pdfs now =
     Inr \<lparr> metadata = \<lparr> input_documents = docs, persona = pers, job_to_be_done = job,
                          processing_timestamp = now, error = None \<rparr>,
           extracted_sections =
             map section_entry_of (take 20 (rank_sections (identify_sections blocks) pers job)),
           sub_section_analysis =
             concat (map (\<lambda>s. take 3 (extract_subsections s pers job))
                       (take 10 (rank_sections (identify_sections blocks) pers job))) \<rparr>"
proof -
  let ?ranked = "rank_sections (identify_sections blocks) pers job"
  have "concat (map (\<lambda>s. if importance_rank s \<le> 10 then take 3 (extract_subsections s pers job) else [])
                 (take 20 ?ranked))
          = concat (map (\<lambda>s. take 3 (extract_subsections s pers job)) (take 10 ?ranked))"
    by (rule ranked_top10) (simp add: rank_sections_length rank_sections_nth_rank)
  then show ?thesis
    using assms by (simp add: process_body_def get_key_def Let_def collect_output_eq)
qed

lemma process_body_Inr_cases:
  assumes "process_body input_file pdfs now = Inr out"
  obtains cfg pers job docs blocks where "input_file = Inr cfg"
    and "cfg_persona cfg = Some pers" and "cfg_job_to_be_done cfg = Some job"
    and "cfg_documents cfg = Some docs"
    and "load_documents pdfs [] docs = Inr blocks"
  using assms
  by (auto simp: process_body_def get_key_def split: sum.splits option.splits)


lemma identify_sections_Nil: "identify_sections [] = []"
  by (simp add: identify_sections_def)

lemma rank_sections_Nil: "rank_sections [] p j = []"
  by (simp add: rank_sections_def sort_desc_def enumerate_eq_zip)

lemma rank_sections_ranks:
  "map importance_rank (rank_sections secs p j) = map int [1..<Suc (length secs)]"
  by (rule nth_equalityI)
     (simp_all add: rank_sections_length rank_sections_nth_rank del: upt_Suc)

lemma process_success_result:
  assumes "process_body input_file pdfs now = Inr out"
  shows "process_document_collection input_file pdfs now = out"
  using assms by (simp add: process_document_collection_def)

text \<open>
  C5: for every collection that is processed without failure, with \<open>ranked\<close> the ranked
  sections, \<open>extracted_sections\<close> is the projection of the first 20 of them, so it has at most
  20 entries and their importance ranks are \<open>1, 2, \<dots>\<close> ascending; \<open>sub_section_analysis\<close> is
  the concatenation, over the first 10 ranked sections in rank order, of the first 3 passages
  of each; these sections are the ones of rank at most 10, and each group has at most 3
  passages in descending order of relevance score.
\<close>

theorem process_output_bounds:
  assumes "input_file = Inr cfg"
    and "cfg_persona cfg = Some pers" and "cfg_job_to_be_done cfg = Some job"
    and "cfg_documents cfg = Some docs"
    and "load_documents pdfs [] docs = Inr blocks"
  shows "let ranked = rank_sections (identify_sections blocks) pers job;
             out = process_document_collection input_file pdfs now
         in extracted_sections out = map section_entry_of (take 20 ranked)
            \<and> length (extracted_sections out) \<le> 20
            \<and> map out_importance_rank (extracted_sections out)
                = map int [1..<Suc (length (extracted_sections out))]
            \<and> sub_section_analysis out
                = concat (map (\<lambda>s. take 3 (extract_subsections s pers job)) (take 10 ranked))
            \<and> (\<forall>s \<in> set (take 10 ranked).
                  importance_rank s \<le> 10
                  \<and> length (take 3 (extract_subsections s pers job)) \<le> 3
                  \<and> sorted_wrt (\<ge>)
                       (map sub_relevance_score (take 3 (extract_subsections s pers job))))
            \<and> map importance_rank ranked = map int [1..<Suc (length ranked)]"
proof -
  define ranked where "ranked = rank_sections (identify_sections blocks) pers job"
  define out where "out = process_document_collection input_file pdfs now"
  have nth_rank: "importance_rank (ranked ! i) = int i + 1" if "i < length ranked" for i
    using that by (simp add: ranked_def rank_sections_length rank_sections_nth_rank)
  have es: "extracted_sections out = map section_entry_of (take 20 ranked)"
    and subs: "sub_section_analysis out
                = concat (map (\<lambda>s. take 3 (extract_subsections s pers job)) (take 10 ranked))"
    using process_success_result [OF process_body_success [OF assms, of now]]
    by (simp_all add: out_def ranked_def)
  have len: "length (extracted_sections out) \<le> 20"
    by (simp add: es)
  have asc: "map out_importance_rank (extracted_sections out)
               = map int [1..<Suc (length (extracted_sections out))]"
    by (rule nth_equalityI) (simp_all add: es section_entry_of_def nth_rank del: upt_Suc)
  have low: "importance_rank s \<le> 10" if "s \<in> set (take 10 ranked)" for s
  proof -
    from that obtain i where "i < length (take 10 ranked)" and "take 10 ranked ! i = s"
      by (auto simp: in_set_conv_nth)
    then show ?thesis
      using nth_rank [of i] by auto
  qed
  have sorted: "sorted_wrt (\<ge>) (map sub_relevance_score (take 3 (extract_subsections s pers job)))"
    for s :: scored_section
    using sorted_wrt_take [OF extract_subsections_sorted [of s pers job], of 3]
    by (simp add: sorted_wrt_map)
  have ranks: "map importance_rank ranked = map int [1..<Suc (length ranked)]"
    by (simp add: ranked_def rank_sections_ranks rank_sections_length)
  show ?thesis
    unfolding Let_def ranked_def [symmetric] out_def [symmetric]
    using es len asc subs low sorted ranks by simp
qed

theorem process_output_bounds_witness:
  "length (extracted_sections (process_document_collection (Inr example_config) example_pdfs ''2026'')) \<le> 20
   \<and> map out_importance_rank
     (extracted_sections (process_document_collection (Inr example_config) example_pdfs ''2026'')) = [1]
   \<and> map sub_relevance_score
     (sub_section_analysis (process_document_collection (Inr example_config) example_pdfs ''2026'')) = [40]"
proof -
  have persona: "cfg_persona example_config = Some ''reader''"
    and job: "cfg_job_to_be_done example_config = Some ''data''"
    and docs: "cfg_documents example_config = Some [''a.pdf'', ''b.pdf'']"
    by (simp_all add: example_config_def)
  have blocks: "load_documents example_pdfs [] [''a.pdf'', ''b.pdf'']
          = Inr (map example_block [''1. Aims'', replicate 51 CHR ''a'' @ ''. data''])"
    by (simp add: example_pdfs_def)
  have "length (extracted_sections
          (process_document_collection (Inr example_config) example_pdfs ''2026'')) \<le> 20"
    using process_output_bounds [OF refl persona job docs blocks, of "''2026''"]
    unfolding Let_def by blast
  moreover have "map out_importance_rank
       (extracted_sections (process_document_collection (Inr example_config) example_pdfs ''2026'')) = [1]
     \<and> map sub_relevance_score
       (sub_section_analysis (process_document_collection (Inr example_config) example_pdfs ''2026'')) = [40]"
    by code_simp
  ultimately show ?thesis
    by blast
qed






text \<open>
  C10: on the error path the metadata does not echo the configuration: \<open>input_documents\<close> is
  empty and \<open>persona\<close> and \<open>job_to_be_done\<close> are empty strings, beside the error text; on the
  success path the metadata holds the three values of the configuration and no error.
\<close>

theorem process_error_metadata:
  "(process_body input_file pdfs now = Inl (Error msg) \<longrightarrow>
      metadata (process_document_collection input_file pdfs now) =
        \<lparr> input_documents = [], persona = [], job_to_be_done = [],
          processing_timestamp = now, error = Some msg \<rparr>)
   \<and> (input_file = Inr cfg \<and> process_body input_file pdfs now = Inr out \<longrightarrow>
        cfg_documents cfg = Some (input_documents (metadata (process_document_collection input_file pdfs now)))
        \<and> cfg_persona cfg = Some (persona (metadata (process_document_collection input_file pdfs now)))
        \<and> cfg_job_to_be_done cfg
            = Some (job_to_be_done (metadata (process_document_collection input_file pdfs now)))
        \<and> error (metadata (process_document_collection input_file pdfs now)) = None)"
proof (rule conjI; rule impI)
  assume "process_body input_file pdfs now = Inl (Error msg)"
  then show "metadata (process_document_collection input_file pdfs now) =
        \<lparr> input_documents = [], persona = [], job_to_be_done = [],
          processing_timestamp = now, error = Some msg \<rparr>"
    by (simp add: process_document_collection_def)
next
  assume a: "input_file = Inr cfg \<and> process_body input_file pdfs now = Inr out"
  then obtain cfg' pers job docs blocks where c: "input_file = Inr cfg'"
    "cfg_persona cfg' = Some pers" "cfg_job_to_be_done cfg' = Some job"
    "cfg_documents cfg' = Some docs" "load_documents pdfs [] docs = Inr blocks"
    by (auto elim: process_body_Inr_cases)
  from process_success_result [OF process_body_success [OF c, of now]] a c(1-4)
  show "cfg_documents cfg = Some (input_documents (metadata (process_document_collection input_file pdfs now)))
        \<and> cfg_persona cfg = Some (persona (metadata (process_document_collection input_file pdfs now)))
        \<and> cfg_job_to_be_done cfg
            = Some (job_to_be_done (metadata (process_document_collection input_file pdfs now)))
        \<and> error (metadata (process_document_collection input_file pdfs now)) = None"
    by simp
qed

theorem process_error_metadata_witness:
  "process_body (Inr example_config_no_job) example_pdfs ''2026'' = Inl (Error (CHR 0x27 # ''job_to_be_done'' @ [CHR 0x27]))
   \<and> metadata (process_document_collection (Inr example_config_no_job) example_pdfs ''2026'') =
        \<lparr> input_documents = [], persona = [], job_to_be_done = [],
          processing_timestamp = ''2026'', error = Some (CHR 0x27 # ''job_to_be_done'' @ [CHR 0x27]) \<rparr>
   \<and> metadata (process_document_collection (Inr example_config) (\<lambda>d. None) ''2026'') =
        \<lparr> input_documents = [''a.pdf'', ''b.pdf''], persona = ''reader'', job_to_be_done = ''data'',
          processing_timestamp = ''2026'', error = None \<rparr>"
proof -
  have 1: "process_body (Inr example_config_no_job) example_pdfs ''2026''
             = Inl (Error (CHR 0x27 # ''job_to_be_done'' @ [CHR 0x27]))"
    by (simp add: process_body_def example_config_no_job_def get_key_def)
  have 2: "process_body (Inr example_config) (\<lambda>d. None) ''2026'' =
      Inr \<lparr> metadata = \<lparr> input_documents = [''a.pdf'', ''b.pdf''], persona = ''reader'',
                           job_to_be_done = ''data'', processing_timestamp = ''2026'', error = None \<rparr>,
            extracted_sections = [], sub_section_analysis = [] \<rparr>"
    by (simp add: process_body_def example_config_def get_key_def identify_sections_Nil
          rank_sections_Nil)
  have 3: "process_document_collection (Inr example_config) (\<lambda>d. None) ''2026'' =
      \<lparr> metadata = \<lparr> input_documents = [''a.pdf'', ''b.pdf''], persona = ''reader'',
                           job_to_be_done = ''data'', processing_timestamp = ''2026'', error = None \<rparr>,
            extracted_sections = [], sub_section_analysis = [] \<rparr>"
    using 2 by (simp add: process_document_collection_def)
  show ?thesis
    using 1 3 process_error_metadata [of "Inr example_config_no_job" example_pdfs "''2026''"
        "CHR 0x27 # ''job_to_be_done'' @ [CHR 0x27]"]
    by simp
qed

end
